theory Spec2Isabelle
  imports Main "HOL-Library.Word"
begin

section \<open>Data model of the storage wrapper (package wrap)\<close>

text \<open>
  Byte slices are lists of 8-bit words. \<open>Encoding\<close> and \<open>Compression\<close> are Go
  \<open>int32\<close> tags, so values outside the two named constants exist and are modelled.
\<close>

type_synonym bytes = "8 word list"

type_synonym Encoding = "32 word"

definition Encoding_json :: Encoding where
  "Encoding_json = 0"

definition Encoding_protobuf :: Encoding where
  "Encoding_protobuf = 1"

type_synonym Compression = "32 word"

definition Compression_none :: Compression where
  "Compression_none = 0"

definition Compression_snappy :: Compression where
  "Compression_snappy = 1"

text \<open>
  \<open>time.Time\<close> is the offset of an instant from the zero instant (January 1, year 1,
  00:00:00 UTC), in nanoseconds; \<open>IsZero\<close> holds of the zero instant only.
\<close>

type_synonym Time = int

definition IsZero :: "Time \<Rightarrow> bool" where
  "IsZero t = (t = 0)"

text \<open>
  Errors are values. Each \<open>fmt.Errorf\<close> and each sentinel of the source is a constructor
  that keeps the arguments of the message; \<open>LibError\<close> is an error produced by a library
  outside the repository (encoding/json, protobuf, snappy, net/url, the resolver, a
  resource's own \<open>Validate\<close>).

  Modelled from the spec: packages actions and store are not under src. The codes of
  package actions are the kinds of the error taxonomy the handler names
  (\<open>InvalidArgument\<close>, \<open>NotFound\<close>, \<open>PreconditionFailed\<close>, \<open>InternalErr\<close>), and an
  \<open>ActionsError\<close> is an error tagged with one of them. The store's typed errors
  not-found, not-valid and precondition-failed are \<open>ErrNotFound\<close>, \<open>ErrNotValid\<close> and
  \<open>ErrPreconditionFailed\<close>.
\<close>

datatype ErrCode = InvalidArgument | NotFound | PreconditionFailed | InternalErr

datatype error =
    ErrValidateMethodMissing
  | ProtobufEncodingRequested
  | ProtobufDecodingRequested
  | InvalidEncoding Encoding
  | InvalidCompression Compression
  | ErrorUnwrapping error
  | OnlyV3Resources
  | WrapListItem nat error
  | NilPointerDereference
  | IndexOutOfRange nat
  | ExpectedPointer
  | ExpectedSlice
  | ErrNotValid error
  | ErrNotFound string
  | ErrPreconditionFailed string
  | CouldNotReadBody error
  | JSONPatchNotSupported
  | InvalidContentType string
  | InvalidIfMatch error
  | InvalidIfNoneMatch error
  | NamespaceMismatch string string
  | NameMismatch string string
  | ActionsError ErrCode error
  | LibError string

record TypeMeta =
  Type :: string
  APIVersion :: string

text \<open>A nil map is \<open>None\<close>; a non-nil map is \<open>Some m\<close>, possibly empty.\<close>

record ObjectMeta =
  Name :: string
  Namespace :: string
  Labels :: "(string \<rightharpoonup> string) option"
  Annotations :: "(string \<rightharpoonup> string) option"
  CreatedBy :: string

definition new_ObjectMeta :: ObjectMeta where
  "new_ObjectMeta =
     \<lparr>Name = '''', Namespace = '''', Labels = None, Annotations = None, CreatedBy = ''''\<rparr>"

text \<open>
  A Go value behind an \<open>interface{}\<close>. \<open>rtype\<close> is what reflection and the type
  assertions of the source read off the dynamic type: the name and package path of the
  pointed-to struct, and whether the method set has \<open>Validate() error\<close>
  (\<open>validatable\<close>), is a \<open>proto.Message\<close>, has \<open>GetTypeMeta()\<close> (\<open>tmGetter\<close>) and
  is a \<open>corev3.Resource\<close>. An object carries its \<open>Metadata\<close> pointer (nil is
  \<open>None\<close>) and its remaining fields. A value is a pointer to an object, or a
  \<open>*corev3.V2ResourceProxy\<close> with its own method set, holding the proxied resource.
\<close>

record rtype =
  TypeName :: string
  PkgPath :: string
  validatable :: bool
  protoMessage :: bool
  tmGetter :: bool
  v3Resource :: bool

record 'p obj =
  rtype :: rtype
  Metadata :: "ObjectMeta option"
  rest :: 'p

datatype 'p iface = Ptr "'p obj" | V2ResourceProxy rtype "'p obj"

fun dynType :: "'p iface \<Rightarrow> rtype" where
  "dynType (Ptr ob) = rtype ob"
| "dynType (V2ResourceProxy t ob) = t"

text \<open>\<open>if proxy, ok := r.(*corev3.V2ResourceProxy); ok { r = proxy.Resource }\<close>\<close>

fun unproxy :: "'p iface \<Rightarrow> 'p iface" where
  "unproxy (V2ResourceProxy t ob) = Ptr ob"
| "unproxy (Ptr ob) = Ptr ob"

text \<open>
  The \<open>Metadata\<close> field of the object behind a value, read and replaced. These are
  operations on the model's objects, not the methods \<open>GetMetadata\<close> and \<open>SetMetadata\<close>
  of a resource, which belong to the resource types and are parameters below.
\<close>

fun metadataField :: "'p iface \<Rightarrow> ObjectMeta option" where
  "metadataField (Ptr ob) = Metadata ob"
| "metadataField (V2ResourceProxy t ob) = Metadata ob"

fun withMetadata :: "'p iface \<Rightarrow> ObjectMeta option \<Rightarrow> 'p iface" where
  "withMetadata (Ptr ob) m = Ptr (ob\<lparr>Metadata := m\<rparr>)"
| "withMetadata (V2ResourceProxy t ob) m = V2ResourceProxy t (ob\<lparr>Metadata := m\<rparr>)"

text \<open>
  The two metadata pointers the package writes through: the one \<open>GetMetadata\<close>
  returned, and the one it allocated itself and handed to \<open>SetMetadata\<close>.
\<close>

datatype metaPointer = FromGetMetadata | GivenToSetMetadata

fun payload :: "'p iface \<Rightarrow> 'p" where
  "payload (Ptr ob) = rest ob"
| "payload (V2ResourceProxy t ob) = rest ob"

record Wrapper =
  TypeMeta :: "TypeMeta option"
  Encoding :: Encoding
  Compression :: Compression
  Value :: bytes
  CreatedAt :: Time
  UpdatedAt :: Time
  DeletedAt :: Time
  ETag :: string

text \<open>
  What the package calls outside the repository, taken as parameters: the two codecs
  (\<open>Unmarshal\<close> returns the target as it left it, with the error if any), snappy, the
  type resolver, \<open>types.ApiVersion\<close>, \<open>Time.MarshalText\<close>, the resource methods
  \<open>Validate\<close> and \<open>GetTypeMeta\<close>, and the four reserved keys of package store.

  The metadata methods of a resource are parameters too. \<open>GetMetadata x r\<close> is the
  object behind the pointer the method returns (\<open>None\<close> for a nil pointer), and
  \<open>SetMetadata x r m\<close> is the resource after the method was handed a pointer to an
  object holding \<open>m\<close>. The package then writes through such a pointer; whether the
  resource sees those writes is up to the resource type (a method may return or keep a
  copy). \<open>writeThrough x p r m\<close> is the resource \<open>r\<close> as it is once the object behind
  the pointer \<open>p\<close> has been brought to hold \<open>m\<close>.
\<close>

record 'p ext =
  json_Marshal :: "'p iface \<Rightarrow> error + bytes"
  json_Unmarshal :: "bytes \<Rightarrow> 'p iface \<Rightarrow> error option \<times> 'p iface"
  proto_Marshal :: "'p iface \<Rightarrow> error + bytes"
  proto_Unmarshal :: "bytes \<Rightarrow> 'p iface \<Rightarrow> error option \<times> 'p iface"
  snappy_Encode :: "bytes \<Rightarrow> bytes"
  snappy_Decode :: "bytes \<Rightarrow> error + bytes"
  apitools_Resolve :: "string \<Rightarrow> string \<Rightarrow> error + 'p iface"
  types_ApiVersion :: "string \<Rightarrow> string"
  MarshalText :: "Time \<Rightarrow> error + string"
  Validate :: "'p iface \<Rightarrow> error option"
  GetTypeMeta :: "'p iface \<Rightarrow> TypeMeta"
  GetMetadata :: "'p iface \<Rightarrow> ObjectMeta option"
  SetMetadata :: "'p iface \<Rightarrow> ObjectMeta \<Rightarrow> 'p iface"
  writeThrough :: "metaPointer \<Rightarrow> 'p iface \<Rightarrow> ObjectMeta \<Rightarrow> 'p iface"
  SensuCreatedAtKey :: string
  SensuUpdatedAtKey :: string
  SensuDeletedAtKey :: string
  SensuETagKey :: string

section \<open>Codecs and compression\<close>

definition Encode :: "'p ext \<Rightarrow> Encoding \<Rightarrow> 'p iface \<Rightarrow> error + bytes" where
  "Encode x e v =
     (if e = Encoding_json then json_Marshal x v
      else if e = Encoding_protobuf then
        (if \<not> protoMessage (dynType v) then Inl ProtobufEncodingRequested
         else proto_Marshal x v)
      else Inl (InvalidEncoding e))"

definition Decode :: "'p ext \<Rightarrow> Encoding \<Rightarrow> bytes \<Rightarrow> 'p iface \<Rightarrow> error option \<times> 'p iface" where
  "Decode x e m v =
     (if e = Encoding_json then json_Unmarshal x m v
      else if e = Encoding_protobuf then
        (if \<not> protoMessage (dynType v) then (Some ProtobufDecodingRequested, v)
         else proto_Unmarshal x m v)
      else (Some (InvalidEncoding e), v))"

definition Compress :: "'p ext \<Rightarrow> Compression \<Rightarrow> bytes \<Rightarrow> bytes" where
  "Compress x c m =
     (if c = Compression_none then m
      else if c = Compression_snappy then snappy_Encode x m
      else m)"

definition Decompress :: "'p ext \<Rightarrow> Compression \<Rightarrow> bytes \<Rightarrow> error + bytes" where
  "Decompress x c m =
     (if c = Compression_none then Inr m
      else if c = Compression_snappy then snappy_Decode x m
      else Inl (InvalidCompression c))"

section \<open>Options and wrapping\<close>

text \<open>
  An \<open>Option\<close> is a function on the wrapper under construction and the resource; it
  returns the wrapper it has updated, or an error.
\<close>

type_synonym 'p Option = "Wrapper \<Rightarrow> 'p iface \<Rightarrow> error + Wrapper"

definition EncodeProtobuf :: "'p Option" where
  "EncodeProtobuf w r =
     (if \<not> protoMessage (dynType r) then Inl ProtobufEncodingRequested
      else Inr (w\<lparr>Encoding := Encoding_protobuf\<rparr>))"

definition EncodeJSON :: "'p Option" where
  "EncodeJSON w r = Inr (w\<lparr>Encoding := Encoding_json\<rparr>)"

definition EncodeDefault :: "'p Option" where
  "EncodeDefault w r =
     (let encoding = (if protoMessage (dynType r) then Encoding_protobuf else Encoding_json)
      in Inr (w\<lparr>Encoding := encoding\<rparr>))"

definition CompressNone :: "'p Option" where
  "CompressNone w r = Inr (w\<lparr>Compression := Compression_none\<rparr>)"

definition CompressSnappy :: "'p Option" where
  "CompressSnappy w r = Inr (w\<lparr>Compression := Compression_snappy\<rparr>)"

definition CompressDefault :: "'p Option" where
  "CompressDefault = CompressSnappy"

text \<open>The loop \<open>for _, opt := range opts\<close>: the first failing option ends it.\<close>

fun applyOptions :: "'p Option list \<Rightarrow> Wrapper \<Rightarrow> 'p iface \<Rightarrow> error + Wrapper" where
  "applyOptions [] w r = Inr w"
| "applyOptions (opt # opts) w r =
     (case opt w r of Inl err \<Rightarrow> Inl err | Inr w' \<Rightarrow> applyOptions opts w' r)"

definition typeMetaOf :: "'p ext \<Rightarrow> 'p iface \<Rightarrow> TypeMeta" where
  "typeMetaOf x r =
     (if tmGetter (dynType r) then GetTypeMeta x r
      else \<lparr>Type = TypeName (dynType r),
            APIVersion = types_ApiVersion x (PkgPath (dynType r))\<rparr>)"

definition newWrapper :: "TypeMeta \<Rightarrow> Wrapper" where
  "newWrapper tm =
     \<lparr>TypeMeta = Some tm, Encoding = 0, Compression = 0, Value = [],
      CreatedAt = 0, UpdatedAt = 0, DeletedAt = 0, ETag = ''''\<rparr>"

definition wrapWithoutValidation ::
    "'p ext \<Rightarrow> 'p iface \<Rightarrow> 'p Option list \<Rightarrow> error + Wrapper" where
  "wrapWithoutValidation x r0 opts =
     (let r = unproxy r0;
          w = newWrapper (typeMetaOf x r)
      in case applyOptions (EncodeDefault # CompressDefault # opts) w r of
           Inl err \<Rightarrow> Inl err
         | Inr w' \<Rightarrow>
             (case Encode x (Encoding w') r of
                Inl err \<Rightarrow> Inl err
              | Inr message \<Rightarrow> Inr (w'\<lparr>Value := Compress x (Compression w') message\<rparr>)))"

definition wrap :: "'p ext \<Rightarrow> 'p iface \<Rightarrow> 'p Option list \<Rightarrow> error + Wrapper" where
  "wrap x r opts =
     (if validatable (dynType r) then
        (case Validate x r of
           Some err \<Rightarrow> Inl err
         | None \<Rightarrow> wrapWithoutValidation x r opts)
      else Inl ErrValidateMethodMissing)"

text \<open>
  The exported entry points \<open>Resource\<close>, \<open>ResourceWithoutValidation\<close>, \<open>V2Resource\<close>
  and \<open>V2ResourceWithoutValidation\<close> of package wrap; they differ in the static type
  of the resource only.
\<close>

definition wrap_Resource :: "'p ext \<Rightarrow> 'p iface \<Rightarrow> 'p Option list \<Rightarrow> error + Wrapper" where
  "wrap_Resource x r opts = wrap x r opts"

definition wrap_ResourceWithoutValidation ::
    "'p ext \<Rightarrow> 'p iface \<Rightarrow> 'p Option list \<Rightarrow> error + Wrapper" where
  "wrap_ResourceWithoutValidation x r opts = wrapWithoutValidation x r opts"

definition wrap_V2Resource :: "'p ext \<Rightarrow> 'p iface \<Rightarrow> 'p Option list \<Rightarrow> error + Wrapper" where
  "wrap_V2Resource x r opts = wrap x r opts"

definition wrap_V2ResourceWithoutValidation ::
    "'p ext \<Rightarrow> 'p iface \<Rightarrow> 'p Option list \<Rightarrow> error + Wrapper" where
  "wrap_V2ResourceWithoutValidation x r opts = wrapWithoutValidation x r opts"

section \<open>Unwrapping\<close>

text \<open>
  \<open>UnwrapRaw\<close> reads \<open>w.TypeMeta.APIVersion\<close>: a nil \<open>TypeMeta\<close> pointer panics there,
  which the model returns as \<open>NilPointerDereference\<close>.
\<close>

definition UnwrapRaw :: "'p ext \<Rightarrow> Wrapper \<Rightarrow> error + 'p iface" where
  "UnwrapRaw x w =
     (case TypeMeta w of
        None \<Rightarrow> Inl NilPointerDereference
      | Some tm \<Rightarrow>
          (case apitools_Resolve x (APIVersion tm) (Type tm) of
             Inl err \<Rightarrow> Inl err
           | Inr resource \<Rightarrow>
               (case Decompress x (Compression w) (Value w) of
                  Inl err \<Rightarrow> Inl (ErrorUnwrapping err)
                | Inr message \<Rightarrow>
                    (case Decode x (Encoding w) message resource of
                       (Some err, _) \<Rightarrow> Inl err
                     | (None, resource') \<Rightarrow> Inr resource'))))"

text \<open>
  \<open>createdAt, _ := w.CreatedAt.MarshalText()\<close> followed by \<open>string(createdAt)\<close>: the
  error is dropped, and the nil bytes of a failed conversion give the empty string.
\<close>

definition timeText :: "'p ext \<Rightarrow> Time \<Rightarrow> string" where
  "timeText x t = (case MarshalText x t of Inl err \<Rightarrow> '''' | Inr s \<Rightarrow> s)"

definition nonNil :: "(string \<rightharpoonup> string) option \<Rightarrow> (string \<rightharpoonup> string)" where
  "nonNil m = (case m of None \<Rightarrow> Map.empty | Some m' \<Rightarrow> m')"

text \<open>
  The label writes shared by \<open>Unwrap\<close> and \<open>UnwrapInto\<close>, in the order of the source:
  created-at, updated-at, and deleted-at when \<open>DeletedAt\<close> is not the zero time.
\<close>

definition stampLabels :: "'p ext \<Rightarrow> Wrapper \<Rightarrow> (string \<rightharpoonup> string) \<Rightarrow> (string \<rightharpoonup> string)" where
  "stampLabels x w labels =
     (let labels1 = labels(SensuCreatedAtKey x \<mapsto> timeText x (CreatedAt w));
          labels2 = labels1(SensuUpdatedAtKey x \<mapsto> timeText x (UpdatedAt w))
      in if \<not> IsZero (DeletedAt w)
         then labels2(SensuDeletedAtKey x \<mapsto> timeText x (DeletedAt w))
         else labels2)"

text \<open>
  What \<open>Unwrap\<close> leaves in the object behind its metadata pointer: the labels and
  annotations maps made when nil, the labels stamped, and the ETag written under its
  annotation key. \<open>UnwrapInto\<close> makes the two maps and stamps the labels, and writes
  nothing into the annotations.
\<close>

definition stampMeta :: "'p ext \<Rightarrow> Wrapper \<Rightarrow> ObjectMeta \<Rightarrow> ObjectMeta" where
  "stampMeta x w meta =
     (let labels = stampLabels x w (nonNil (Labels meta));
          annotations = (nonNil (Annotations meta))(SensuETagKey x \<mapsto> ETag w)
      in meta\<lparr>Labels := Some labels, Annotations := Some annotations\<rparr>)"

definition stampMetaInto :: "'p ext \<Rightarrow> Wrapper \<Rightarrow> ObjectMeta \<Rightarrow> ObjectMeta" where
  "stampMetaInto x w meta =
     (let annotations = nonNil (Annotations meta);
          labels = stampLabels x w (nonNil (Labels meta))
      in meta\<lparr>Labels := Some labels, Annotations := Some annotations\<rparr>)"

text \<open>
  \<open>Unwrap\<close> asks the resource for its metadata pointer; when that is nil it allocates
  an object, hands it to \<open>SetMetadata\<close> and goes on with its own pointer. All later
  writes go through the pointer, and the resource itself is what is returned.
\<close>

definition Unwrap :: "'p ext \<Rightarrow> Wrapper \<Rightarrow> error + 'p iface" where
  "Unwrap x w =
     (case UnwrapRaw x w of
        Inl err \<Rightarrow> Inl err
      | Inr r \<Rightarrow>
          if \<not> v3Resource (dynType r) then Inl OnlyV3Resources
          else
            (case GetMetadata x r of
               None \<Rightarrow>
                 (let meta = new_ObjectMeta;
                      r1 = SetMetadata x r meta
                  in Inr (writeThrough x GivenToSetMetadata r1 (stampMeta x w meta)))
             | Some meta \<Rightarrow>
                 Inr (writeThrough x FromGetMetadata r (stampMeta x w meta))))"

text \<open>
  \<open>UnwrapInto\<close> writes through the caller's pointer, so the model returns the target
  as the call leaves it together with the error, if any. For a proxy the writes land in
  the proxied resource (\<open>reproxy\<close>). \<open>meta.Labels\<close> on a nil \<open>meta\<close> panics; there
  is no call of \<open>SetMetadata\<close>.
\<close>

fun objOf :: "'p iface \<Rightarrow> 'p obj" where
  "objOf (Ptr ob) = ob"
| "objOf (V2ResourceProxy t ob) = ob"

fun reproxy :: "'p iface \<Rightarrow> 'p iface \<Rightarrow> 'p iface" where
  "reproxy (V2ResourceProxy t ob) p = V2ResourceProxy t (objOf p)"
| "reproxy (Ptr ob) p = p"

definition UnwrapInto :: "'p ext \<Rightarrow> Wrapper \<Rightarrow> 'p iface \<Rightarrow> error option \<times> 'p iface" where
  "UnwrapInto x w p0 =
     (let p = unproxy p0
      in case Decompress x (Compression w) (Value w) of
           Inl err \<Rightarrow> (Some (ErrorUnwrapping err), p0)
         | Inr message \<Rightarrow>
             (case Decode x (Encoding w) message p of
                (Some err, p') \<Rightarrow> (Some err, reproxy p0 p')
              | (None, p') \<Rightarrow>
                  if v3Resource (dynType p') then
                    (case GetMetadata x p' of
                       None \<Rightarrow> (Some NilPointerDereference, reproxy p0 p')
                     | Some meta \<Rightarrow>
                         (None, reproxy p0
                            (writeThrough x FromGetMetadata p' (stampMetaInto x w meta))))
                  else (None, reproxy p0 p')))"

section \<open>Lists of wrappers\<close>

text \<open>\<open>List.Unwrap\<close>: the loop over the indices, from index \<open>i\<close> on.\<close>

fun List_Unwrap_from :: "'p ext \<Rightarrow> nat \<Rightarrow> Wrapper list \<Rightarrow> error + 'p iface list" where
  "List_Unwrap_from x i [] = Inr []"
| "List_Unwrap_from x i (w # ws) =
     (case Unwrap x w of
        Inl err \<Rightarrow> Inl (WrapListItem i err)
      | Inr p \<Rightarrow>
          (case List_Unwrap_from x (Suc i) ws of
             Inl err \<Rightarrow> Inl err
           | Inr ps \<Rightarrow> Inr (p # ps)))"

definition List_Unwrap :: "'p ext \<Rightarrow> Wrapper list \<Rightarrow> error + 'p iface list" where
  "List_Unwrap x l = List_Unwrap_from x 0 l"

text \<open>
  A Go slice of a concrete element type, as reflection sees it: \<open>elems\<close> are the
  elements below \<open>Len\<close>, \<open>spare\<close> the elements of the backing array from \<open>Len\<close> up
  to \<open>Cap\<close>. An element is an object, or \<open>None\<close> for a nil pointer (when the element
  type is a pointer type, \<open>elemPtr\<close>); \<open>elemZero\<close> is the zero value that
  \<open>reflect.New\<close> allocates and that \<open>reflect.MakeSlice\<close> fills a slice of structs with.
\<close>

record 'p gslice =
  elemPtr :: bool
  elemZero :: "'p obj"
  elems :: "'p obj option list"
  spare :: "'p obj option list"

definition Len :: "'p gslice \<Rightarrow> nat" where
  "Len s = length (elems s)"

definition Cap :: "'p gslice \<Rightarrow> nat" where
  "Cap s = length (elems s) + length (spare s)"

definition MakeSlice :: "'p gslice \<Rightarrow> nat \<Rightarrow> 'p gslice" where
  "MakeSlice s n =
     s\<lparr>elems := replicate n (if elemPtr s then None else Some (elemZero s)), spare := []\<rparr>"

definition SetLenCap :: "'p gslice \<Rightarrow> 'p gslice" where
  "SetLenCap s = s\<lparr>elems := elems s @ spare s, spare := []\<rparr>"

text \<open>
  What \<open>List.UnwrapInto\<close> can be handed: a \<open>*[]corev3.Resource\<close>, a pointer to a slice
  of another element type, a pointer to something that is not a slice, or a value that
  is not a pointer.
\<close>

datatype 'p target =
    ResourceSlicePtr "'p iface list"
  | SlicePtr "'p gslice"
  | PtrToNonSlice
  | NonPtr

text \<open>
  The loop \<open>for i, w := range l\<close> over the elements, from index \<open>i\<close> on. \<open>v.Index(i)\<close>
  panics out of range (\<open>IndexOutOfRange\<close>); a nil element is allocated first; the
  element is then what \<open>UnwrapInto\<close> leaves behind the pointer.
\<close>

fun unwrapElems ::
    "'p ext \<Rightarrow> 'p obj \<Rightarrow> Wrapper list \<Rightarrow> nat \<Rightarrow> 'p obj option list
      \<Rightarrow> error option \<times> 'p obj option list" where
  "unwrapElems x zero [] i es = (None, es)"
| "unwrapElems x zero (w # ws) i es =
     (if length es \<le> i then (Some (IndexOutOfRange i), es)
      else
        (let elt = (case es ! i of None \<Rightarrow> zero | Some ob \<Rightarrow> ob);
             (err, p') = UnwrapInto x w (Ptr elt);
             es' = es[i := Some (objOf p')]
         in case err of
              Some e \<Rightarrow> (Some e, es')
            | None \<Rightarrow> unwrapElems x zero ws (Suc i) es'))"

definition resize :: "'p gslice \<Rightarrow> nat \<Rightarrow> 'p gslice" where
  "resize s n =
     (let v = (if Cap s < n then MakeSlice s n else s)
      in if Len v < Cap v then SetLenCap v else v)"

definition List_UnwrapInto :: "'p ext \<Rightarrow> Wrapper list \<Rightarrow> 'p target \<Rightarrow> error option \<times> 'p target" where
  "List_UnwrapInto x l ptr =
     (if length l = 0 then (None, ptr)
      else case ptr of
        ResourceSlicePtr list \<Rightarrow>
          (case List_Unwrap x l of
             Inl err \<Rightarrow> (Some err, ptr)
           | Inr values \<Rightarrow> (None, ResourceSlicePtr values))
      | NonPtr \<Rightarrow> (Some (ErrNotValid ExpectedPointer), ptr)
      | PtrToNonSlice \<Rightarrow> (Some (ErrNotValid ExpectedSlice), ptr)
      | SlicePtr s \<Rightarrow>
          (let v = resize s (length l);
               (err, es) = unwrapElems x (elemZero v) l 0 (elems v)
           in (err, SlicePtr (v\<lparr>elems := es\<rparr>))))"

section \<open>The PATCH handler (package handlers)\<close>

definition mergePatchContentType :: string where
  "mergePatchContentType = ''application/merge-patch+json''"

definition jsonPatchContentType :: string where
  "jsonPatchContentType = ''application/json-patch+json''"

definition ifMatchHeader :: string where
  "ifMatchHeader = ''If-Match''"

definition ifNoneMatchHeader :: string where
  "ifNoneMatchHeader = ''If-None-Match''"

text \<open>
  An \<open>http.Header\<close> is a \<open>map[string][]string\<close>; a key that is not in the map reads as
  the nil slice. \<open>Header.Get\<close> returns the first value of the key, or the empty string
  when there is none. Indexing a \<open>map[string]string\<close> gives the empty string for a
  missing key.
\<close>

type_synonym Header = "string \<Rightarrow> string list"

definition Header_Get :: "Header \<Rightarrow> string \<Rightarrow> string" where
  "Header_Get h key = (case h key of [] \<Rightarrow> '''' | v # vs \<Rightarrow> v)"

definition index :: "(string \<rightharpoonup> string) \<Rightarrow> string \<Rightarrow> string" where
  "index m key = (case m key of None \<Rightarrow> '''' | Some v \<Rightarrow> v)"

text \<open>
  The request, as the handler reads it: the outcome of \<open>ioutil.ReadAll(r.Body)\<close>, the
  header, and the route variables \<open>mux.Vars(r)\<close>.
\<close>

record Request =
  Body :: "error + bytes"
  Header :: Header
  Vars :: "string \<rightharpoonup> string"

datatype Patcher = Merge bytes

text \<open>The context carries the parsed preconditions, when the request had any.\<close>

record 'c Ctx =
  IfMatch :: "'c option"
  IfNoneMatch :: "'c option"

record ID =
  ID_Namespace :: string
  ID_Name :: string

record 'p HandlerResponse =
  Resource :: "'p iface option"

text \<open>
  What the handler calls outside the file, taken as parameters: \<open>url.PathUnescape\<close>,
  \<open>json.Unmarshal\<close> into the local struct \<open>body\<close> (the result is its \<open>Metadata\<close>
  pointer), the precondition parsers of the store package, and the store's \<open>Patch\<close>.
\<close>

record 'c henv =
  url_PathUnescape :: "string \<Rightarrow> error + string"
  json_Unmarshal_body :: "bytes \<Rightarrow> error + ObjectMeta option"
  ReadIfMatch :: "string \<Rightarrow> error + 'c"
  ReadIfNoneMatch :: "string \<Rightarrow> error + 'c"
  store_Patch :: "'c Ctx \<Rightarrow> ID \<Rightarrow> Patcher \<Rightarrow> error option"

text \<open>
  Modelled from the spec: \<open>actions.NewError\<close> is not under src; it classifies an error
  under a kind of the taxonomy.
\<close>

definition NewError :: "ErrCode \<Rightarrow> error \<Rightarrow> error" where
  "NewError code err = ActionsError code err"

definition validatePatch :: "'c henv \<Rightarrow> bytes \<Rightarrow> (string \<rightharpoonup> string) \<Rightarrow> error option" where
  "validatePatch env data vars =
     (case json_Unmarshal_body env data of
        Inl err \<Rightarrow> Some err
      | Inr None \<Rightarrow> None
      | Inr (Some md) \<Rightarrow>
          (case url_PathUnescape env (index vars ''namespace'') of
             Inl err \<Rightarrow> Some err
           | Inr namespace \<Rightarrow>
               if Namespace md \<noteq> '''' \<and> Namespace md \<noteq> namespace
               then Some (NamespaceMismatch (Namespace md) namespace)
               else
                 (case url_PathUnescape env (index vars ''id'') of
                    Inl err \<Rightarrow> Some err
                  | Inr name \<Rightarrow>
                      if Name md \<noteq> '''' \<and> Name md \<noteq> name
                      then Some (NameMismatch (Name md) name)
                      else None)))"

definition patchV3Resource ::
    "'c henv \<Rightarrow> 'c Ctx \<Rightarrow> string \<Rightarrow> string \<Rightarrow> Patcher \<Rightarrow> 'p iface option \<times> error option" where
  "patchV3Resource env ctx name namespace patcher =
     (let id = \<lparr>ID_Namespace = namespace, ID_Name = name\<rparr>
      in case store_Patch env ctx id patcher of
           Some err \<Rightarrow>
             (case err of
                ErrNotFound k \<Rightarrow> (None, Some (NewError NotFound err))
              | ErrNotValid e \<Rightarrow> (None, Some (NewError InvalidArgument err))
              | ErrPreconditionFailed k \<Rightarrow> (None, Some (NewError PreconditionFailed err))
              | _ \<Rightarrow> (None, Some (NewError InternalErr err)))
         | None \<Rightarrow> (None, None))"

text \<open>The switch on the Content-Type header that picks the patcher.\<close>

definition selectPatcher :: "bytes \<Rightarrow> string \<Rightarrow> error + Patcher" where
  "selectPatcher body contentType =
     (if contentType = mergePatchContentType \<or> contentType = '''' then Inr (Merge body)
      else if contentType = jsonPatchContentType
        then Inl (NewError InvalidArgument JSONPatchNotSupported)
      else Inl (NewError InvalidArgument (InvalidContentType contentType)))"

text \<open>The two conditional-request headers, read into the context.\<close>

definition conditionalContext :: "'c henv \<Rightarrow> Header \<Rightarrow> error + 'c Ctx" where
  "conditionalContext env h =
     (let ctx = \<lparr>IfMatch = None, IfNoneMatch = None\<rparr>
      in case (if Header_Get h ifMatchHeader \<noteq> ''''
               then (case ReadIfMatch env (Header_Get h ifMatchHeader) of
                       Inl err \<Rightarrow> Inl (NewError InvalidArgument (InvalidIfMatch err))
                     | Inr ifMatch \<Rightarrow> Inr (ctx\<lparr>IfMatch := Some ifMatch\<rparr>))
               else Inr ctx) of
           Inl err \<Rightarrow> Inl err
         | Inr ctx1 \<Rightarrow>
             if Header_Get h ifNoneMatchHeader \<noteq> ''''
             then (case ReadIfNoneMatch env (Header_Get h ifNoneMatchHeader) of
                     Inl err \<Rightarrow> Inl (NewError InvalidArgument (InvalidIfNoneMatch err))
                   | Inr ifNoneMatch \<Rightarrow> Inr (ctx1\<lparr>IfNoneMatch := Some ifNoneMatch\<rparr>))
             else Inr ctx1)"

definition PatchResource :: "'c henv \<Rightarrow> Request \<Rightarrow> 'p HandlerResponse \<times> error option" where
  "PatchResource env r =
     (let response = \<lparr>Resource = None\<rparr>
      in case Body r of
           Inl err \<Rightarrow> (response, Some (NewError InvalidArgument (CouldNotReadBody err)))
         | Inr body \<Rightarrow>
       (case selectPatcher body (Header_Get (Header r) ''Content-Type'') of
           Inl err \<Rightarrow> (response, Some err)
         | Inr patcher \<Rightarrow>
       (case conditionalContext env (Header r) of
           Inl err \<Rightarrow> (response, Some err)
         | Inr ctx \<Rightarrow>
       (case url_PathUnescape env (index (Vars r) ''id'') of
           Inl err \<Rightarrow> (response, Some err)
         | Inr name \<Rightarrow>
       (case url_PathUnescape env (index (Vars r) ''namespace'') of
           Inl err \<Rightarrow> (response, Some err)
         | Inr namespace \<Rightarrow>
       (case validatePatch env body (Vars r) of
           Some err \<Rightarrow> (response, Some (NewError InvalidArgument err))
         | None \<Rightarrow>
             (let (resource, err) = patchV3Resource env ctx name namespace patcher
              in (response\<lparr>Resource := resource\<rparr>, err))))))))"

section \<open>Observations used in the statements\<close>


text \<open>The options the package itself provides.\<close>

definition packageOptions :: "'p Option set" where
  "packageOptions =
     {EncodeProtobuf, EncodeJSON, EncodeDefault, CompressNone, CompressSnappy, CompressDefault}"

text \<open>
  Reading a label or an annotation of a resource through its \<open>GetMetadata\<close>: a nil
  metadata pointer or a nil map has no keys.
\<close>

definition metaOrNew :: "'p ext \<Rightarrow> 'p iface \<Rightarrow> ObjectMeta" where
  "metaOrNew x r = (case GetMetadata x r of None \<Rightarrow> new_ObjectMeta | Some m \<Rightarrow> m)"

definition labelOf :: "'p ext \<Rightarrow> 'p iface \<Rightarrow> string \<Rightarrow> string option" where
  "labelOf x r key = nonNil (Labels (metaOrNew x r)) key"

definition annotationOf :: "'p ext \<Rightarrow> 'p iface \<Rightarrow> string \<Rightarrow> string option" where
  "annotationOf x r key = nonNil (Annotations (metaOrNew x r)) key"

text \<open>The same on the outcome of \<open>Unwrap\<close>; a failed call has no resource to read.\<close>

definition resultLabel :: "'p ext \<Rightarrow> error + 'p iface \<Rightarrow> string \<Rightarrow> string option" where
  "resultLabel x res key = (case res of Inl err \<Rightarrow> None | Inr r \<Rightarrow> labelOf x r key)"

definition resultAnnotation :: "'p ext \<Rightarrow> error + 'p iface \<Rightarrow> string \<Rightarrow> string option" where
  "resultAnnotation x res key =
     (case res of Inl err \<Rightarrow> None | Inr r \<Rightarrow> annotationOf x r key)"

text \<open>The keys \<open>Unwrap\<close> may write: three labels and one annotation.\<close>

definition storageLabelKeys :: "'p ext \<Rightarrow> string set" where
  "storageLabelKeys x = {SensuCreatedAtKey x, SensuUpdatedAtKey x, SensuDeletedAtKey x}"

definition storageAnnotationKeys :: "'p ext \<Rightarrow> string set" where
  "storageAnnotationKeys x = {SensuETagKey x}"




section \<open>A small instance of the collaborators\<close>

text \<open>
  Concrete collaborators on which the definitions can be run: resources whose remaining
  fields are a byte string; a JSON stand-in that writes those bytes and a protobuf
  stand-in that writes them reversed; a compressor that prefixes a marker byte; a
  resolver that knows one type; a validator that rejects the empty byte string; metadata
  methods that return and keep the pointer in the \<open>Metadata\<close> field, as the methods of a
  resource with such a field do.
\<close>

fun setRest :: "'p iface \<Rightarrow> 'p \<Rightarrow> 'p iface" where
  "setRest (Ptr ob) p = Ptr (ob\<lparr>rest := p\<rparr>)"
| "setRest (V2ResourceProxy t ob) p = V2ResourceProxy t (ob\<lparr>rest := p\<rparr>)"

definition sampleType :: rtype where
  "sampleType =
     \<lparr>TypeName = ''CheckConfig'', PkgPath = ''github.com/sensu/core/v2'',
      validatable = True, protoMessage = True, tmGetter = False, v3Resource = True\<rparr>"

definition plainType :: rtype where
  "plainType =
     \<lparr>TypeName = ''Plain'', PkgPath = ''example.com/plain'',
      validatable = False, protoMessage = False, tmGetter = False, v3Resource = False\<rparr>"

definition sampleObj :: "bytes \<Rightarrow> bytes obj" where
  "sampleObj p = \<lparr>rtype = sampleType, Metadata = None, rest = p\<rparr>"

definition plainObj :: "bytes \<Rightarrow> bytes obj" where
  "plainObj p = \<lparr>rtype = plainType, Metadata = None, rest = p\<rparr>"

definition sampleSnappyDecode :: "bytes \<Rightarrow> error + bytes" where
  "sampleSnappyDecode m =
     (case m of
        [] \<Rightarrow> Inl (LibError ''snappy: corrupt input'')
      | b # m' \<Rightarrow> if b = 255 then Inr m' else Inl (LibError ''snappy: corrupt input''))"

definition sampleExt :: "bytes ext" where
  "sampleExt =
     \<lparr>json_Marshal = (\<lambda>v. Inr (payload v)),
      json_Unmarshal = (\<lambda>m v. (None, setRest v m)),
      proto_Marshal = (\<lambda>v. Inr (rev (payload v))),
      proto_Unmarshal = (\<lambda>m v. (None, setRest v (rev m))),
      snappy_Encode = (\<lambda>m. 255 # m),
      snappy_Decode = sampleSnappyDecode,
      apitools_Resolve = (\<lambda>api typ.
         if api = ''core/v2'' \<and> typ = ''CheckConfig'' then Inr (Ptr (sampleObj []))
         else Inl (LibError ''type could not be found'')),
      types_ApiVersion = (\<lambda>path. ''core/v2''),
      MarshalText = (\<lambda>t. if t = 0 then Inr ''0001-01-01T00:00:00Z'' else Inr ''later''),
      Validate = (\<lambda>v. if payload v = [] then Some (LibError ''empty'') else None),
      GetTypeMeta = (\<lambda>v. \<lparr>Type = ''CheckConfig'', APIVersion = ''core/v2''\<rparr>),
      GetMetadata = metadataField,
      SetMetadata = (\<lambda>v m. withMetadata v (Some m)),
      writeThrough = (\<lambda>p v m. withMetadata v (Some m)),
      SensuCreatedAtKey = ''sensu.io/created_at'',
      SensuUpdatedAtKey = ''sensu.io/updated_at'',
      SensuDeletedAtKey = ''sensu.io/deleted_at'',
      SensuETagKey = ''sensu.io/etag''\<rparr>"

text \<open>A stored envelope of the sample type: JSON, uncompressed, not deleted.\<close>

definition sampleWrapper :: Wrapper where
  "sampleWrapper =
     \<lparr>TypeMeta = Some \<lparr>Type = ''CheckConfig'', APIVersion = ''core/v2''\<rparr>,
      Encoding = Encoding_json, Compression = Compression_none, Value = [1, 2, 3],
      CreatedAt = 5, UpdatedAt = 7, DeletedAt = 0, ETag = ''abc''\<rparr>"




text \<open>A request header that carries Content-Type with one value, and nothing else.\<close>

definition contentTypeHeader :: "string \<Rightarrow> Header" where
  "contentTypeHeader v = (\<lambda>key. if key = ''Content-Type'' then [v] else [])"

text \<open>Collaborators of the handler: no escapes in paths, a body that names a resource.\<close>

definition sampleBodyMeta :: ObjectMeta where
  "sampleBodyMeta = new_ObjectMeta\<lparr>Namespace := ''other''\<rparr>"

definition sampleHenv :: "unit henv" where
  "sampleHenv =
     \<lparr>url_PathUnescape = (\<lambda>s. Inr s),
      json_Unmarshal_body = (\<lambda>data. if data = [] then Inr None else Inr (Some sampleBodyMeta)),
      ReadIfMatch = (\<lambda>s. Inr ()),
      ReadIfNoneMatch = (\<lambda>s. Inr ()),
      store_Patch = (\<lambda>ctx id patcher. None)\<rparr>"

definition sampleRequest :: "bytes \<Rightarrow> Request" where
  "sampleRequest data =
     \<lparr>Body = Inr data, Header = (\<lambda>key. []),
      Vars = [''namespace'' \<mapsto> ''default'', ''id'' \<mapsto> ''foo'']\<rparr>"

section \<open>Stored documents of two resource types\<close>

text \<open>
  Envelopes as the store holds them, with JSON text as their value, for two resource
  types of the core packages, and what the collaborators do on exactly these inputs:
  \<^item> \<open>core/v3\<close> \<open>EntityConfig\<close>, whose \<open>Metadata\<close> field is a pointer that its
    \<open>GetMetadata\<close> returns and its \<open>SetMetadata\<close> stores; the resolver's instance is the
    zero value, with a nil \<open>Metadata\<close>;
  \<^item> \<open>core/v2\<close> \<open>TessenConfig\<close>, which has no metadata of its own: its \<open>GetMetadata\<close>
    returns a pointer to a fresh empty object on every call and its \<open>SetMetadata\<close> does
    nothing, so nothing written through either pointer reaches the resource.
  The JSON decoder is a table of the documents below and refuses every other input; the
  remaining fields of both types stay at their zero values, the empty byte string here.
\<close>

definition bytesOf :: "string \<Rightarrow> bytes" where
  "bytesOf s = map (\<lambda>c. of_nat (of_char c)) s"

definition docNamed :: string where
  \<open>docNamed = ''{"metadata":{"name":"foo","namespace":"default"}}''\<close>

definition docLabelled :: string where
  \<open>docLabelled =
     ''{"metadata":{"name":"foo","namespace":"default","labels":{"sensu.io/deleted_at":"2020-01-01T00:00:00Z"}}}''\<close>

definition docTessen :: string where
  \<open>docTessen = ''{"opt_out":false}''\<close>

definition namedMeta :: ObjectMeta where
  "namedMeta =
     \<lparr>Name = ''foo'', Namespace = ''default'', Labels = None, Annotations = None,
      CreatedBy = ''''\<rparr>"

definition labelledMeta :: ObjectMeta where
  "labelledMeta =
     namedMeta\<lparr>Labels := Some [''sensu.io/deleted_at'' \<mapsto> ''2020-01-01T00:00:00Z'']\<rparr>"

definition entityConfigType :: rtype where
  "entityConfigType =
     \<lparr>TypeName = ''EntityConfig'', PkgPath = ''github.com/sensu/core/v3'',
      validatable = True, protoMessage = True, tmGetter = True, v3Resource = True\<rparr>"

definition tessenConfigType :: rtype where
  "tessenConfigType =
     \<lparr>TypeName = ''TessenConfig'', PkgPath = ''github.com/sensu/core/v2'',
      validatable = True, protoMessage = True, tmGetter = False, v3Resource = True\<rparr>"

definition entityConfigZero :: "bytes obj" where
  "entityConfigZero = \<lparr>rtype = entityConfigType, Metadata = None, rest = []\<rparr>"

definition tessenConfigZero :: "bytes obj" where
  "tessenConfigZero = \<lparr>rtype = tessenConfigType, Metadata = None, rest = []\<rparr>"

definition isTessen :: "'p iface \<Rightarrow> bool" where
  "isTessen v = (TypeName (dynType v) = ''TessenConfig'')"

definition isEntity :: "'p iface \<Rightarrow> bool" where
  "isEntity v = (TypeName (dynType v) = ''EntityConfig'')"

definition coreUnmarshal :: "bytes \<Rightarrow> bytes iface \<Rightarrow> error option \<times> bytes iface" where
  "coreUnmarshal m v =
     (if m = bytesOf ''{}'' then (None, v)
      else if isEntity v \<and> m = bytesOf docNamed then (None, withMetadata v (Some namedMeta))
      else if isEntity v \<and> m = bytesOf docLabelled
        then (None, withMetadata v (Some labelledMeta))
      else if isTessen v \<and> m = bytesOf docTessen then (None, v)
      else (Some (LibError ''document not in the table''), v))"

definition coreResolve :: "string \<Rightarrow> string \<Rightarrow> error + bytes iface" where
  "coreResolve api typ =
     (if api = ''core/v3'' \<and> typ = ''EntityConfig'' then Inr (Ptr entityConfigZero)
      else if api = ''core/v2'' \<and> typ = ''TessenConfig'' then Inr (Ptr tessenConfigZero)
      else Inl (LibError ''type could not be found''))"

definition coreExt :: "bytes ext" where
  "coreExt =
     sampleExt
       \<lparr>json_Unmarshal := coreUnmarshal,
        apitools_Resolve := coreResolve,
        GetMetadata := (\<lambda>v. if isTessen v then Some new_ObjectMeta else metadataField v),
        SetMetadata := (\<lambda>v m. if isTessen v then v else withMetadata v (Some m)),
        writeThrough := (\<lambda>p v m. if isTessen v then v else withMetadata v (Some m))\<rparr>"

text \<open>
  An envelope as \<open>wrap\<close> builds it and the store returns it: JSON, uncompressed, with
  the given type identity, document and ETag, and no timestamp set.
\<close>

definition stored :: "string \<Rightarrow> string \<Rightarrow> string \<Rightarrow> string \<Rightarrow> Wrapper" where
  "stored api typ doc etag =
     \<lparr>TypeMeta = Some \<lparr>Type = typ, APIVersion = api\<rparr>,
      Encoding = Encoding_json, Compression = Compression_none, Value = bytesOf doc,
      CreatedAt = 0, UpdatedAt = 0, DeletedAt = 0, ETag = etag\<rparr>"

section \<open>Options: auxiliary facts\<close>









lemma packageOption_step:
  assumes "opt \<in> packageOptions" and "opt w r = Inr w'"
  shows "TypeMeta w' = TypeMeta w \<and> Value w' = Value w \<and> CreatedAt w' = CreatedAt w \<and>
         UpdatedAt w' = UpdatedAt w \<and> DeletedAt w' = DeletedAt w \<and> ETag w' = ETag w \<and>
         (Encoding w' = Encoding w \<or> Encoding w' = Encoding_json \<or>
          Encoding w' = Encoding_protobuf) \<and>
         (Compression w' = Compression w \<or> Compression w' = Compression_none \<or>
          Compression w' = Compression_snappy)"
  using assms
  by (auto simp: packageOptions_def EncodeProtobuf_def EncodeJSON_def EncodeDefault_def
        CompressNone_def CompressSnappy_def CompressDefault_def Let_def split: if_splits)

lemma applyOptions_package:
  assumes "set opts \<subseteq> packageOptions" and "applyOptions opts w r = Inr w'"
  shows "TypeMeta w' = TypeMeta w \<and> Value w' = Value w \<and> CreatedAt w' = CreatedAt w \<and>
         UpdatedAt w' = UpdatedAt w \<and> DeletedAt w' = DeletedAt w \<and> ETag w' = ETag w \<and>
         (Encoding w' = Encoding w \<or> Encoding w' = Encoding_json \<or>
          Encoding w' = Encoding_protobuf) \<and>
         (Compression w' = Compression w \<or> Compression w' = Compression_none \<or>
          Compression w' = Compression_snappy)"
  using assms
proof (induction opts arbitrary: w)
  case Nil
  then show ?case by simp
next
  case (Cons opt opts)
  from Cons.prems(2) obtain w1 where s: "opt w r = Inr w1" and rest: "applyOptions opts w1 r = Inr w'"
    by (auto split: sum.splits)
  from Cons.prems(1) have m: "opt \<in> packageOptions" and sub: "set opts \<subseteq> packageOptions"
    by simp_all
  from packageOption_step[OF m s] Cons.IH[OF sub rest] show ?case
    by metis
qed

lemma wrapWithoutValidation_package:
  assumes "wrapWithoutValidation x r opts = Inr w" and "set opts \<subseteq> packageOptions"
  shows "\<exists>message. Encode x (Encoding w) (unproxy r) = Inr message \<and>
           Value w = Compress x (Compression w) message \<and>
           TypeMeta w = Some (typeMetaOf x (unproxy r)) \<and>
           (Encoding w = Encoding_json \<or> Encoding w = Encoding_protobuf) \<and>
           (Compression w = Compression_none \<or> Compression w = Compression_snappy) \<and>
           CreatedAt w = 0 \<and> UpdatedAt w = 0 \<and> DeletedAt w = 0 \<and> ETag w = []"
proof -
  from assms(1) obtain w' message where
    a: "applyOptions (EncodeDefault # CompressDefault # opts)
          (newWrapper (typeMetaOf x (unproxy r))) (unproxy r) = Inr w'"
    and e: "Encode x (Encoding w') (unproxy r) = Inr message"
    and w: "w = w'\<lparr>Value := Compress x (Compression w') message\<rparr>"
    by (auto simp: wrapWithoutValidation_def Let_def split: sum.splits)
  have "set (EncodeDefault # CompressDefault # opts) \<subseteq> (packageOptions :: 'a Option set)"
    using assms(2) by (simp add: packageOptions_def)
  from applyOptions_package[OF this a] e show ?thesis
    by (auto simp: w newWrapper_def Encoding_json_def Compression_none_def)
qed






section \<open>Compression tags\<close>

text \<open>
  Claim C10. \<open>Compress\<close> returns bytes for every tag and has no error result: the none
  tag and every tag other than snappy return the input unchanged, and only the snappy
  tag hands the bytes to the compressor. \<open>Decompress\<close> with a tag that is neither none
  nor snappy fails with the invalid-compression error.
\<close>

theorem Compress_Decompress_tags:
  "(c \<noteq> Compression_snappy \<longrightarrow> Compress x c m = m) \<and>
   Compress x Compression_snappy m = snappy_Encode x m \<and>
   Decompress x Compression_none m = Inr m \<and>
   Decompress x Compression_snappy m = snappy_Decode x m \<and>
   (c \<noteq> Compression_none \<and> c \<noteq> Compression_snappy \<longrightarrow>
      Decompress x c m = Inl (InvalidCompression c))"
  by (simp add: Compress_def Decompress_def Compression_none_def Compression_snappy_def)

theorem Compress_Decompress_tags_witness:
  "Compress sampleExt 7 [1, 2] = [1, 2] \<and>
   Decompress sampleExt 7 [1, 2] = Inl (InvalidCompression 7)"
  using Compress_Decompress_tags[where c = 7 and x = sampleExt and m = "[1, 2]"]
  by (simp add: Compression_none_def Compression_snappy_def)

section \<open>The validation gate of wrap\<close>

text \<open>
  Claim C3. \<open>wrap\<close> fails with \<open>ErrValidateMethodMissing\<close> when the resource has no
  \<open>Validate\<close> method, whatever its content and the options; it fails with the
  resource's own validation error when \<open>Validate\<close> returns one; it goes on to
  \<open>wrapWithoutValidation\<close> only when \<open>Validate\<close> returned no error, so a wrapper is
  never produced without a passed validation.
\<close>

theorem wrap_validation_gate:
  "(\<not> validatable (dynType r) \<longrightarrow> wrap x r opts = Inl ErrValidateMethodMissing) \<and>
   (validatable (dynType r) \<longrightarrow> Validate x r = Some err \<longrightarrow> wrap x r opts = Inl err) \<and>
   (validatable (dynType r) \<longrightarrow> Validate x r = None \<longrightarrow>
      wrap x r opts = wrapWithoutValidation x r opts) \<and>
   (wrap x r opts = Inr w \<longrightarrow> validatable (dynType r) \<and> Validate x r = None)"
  by (auto simp: wrap_def split: option.splits)

theorem wrap_validation_gate_witness:
  "wrap sampleExt (Ptr (plainObj [1])) [] = Inl ErrValidateMethodMissing \<and>
   wrap sampleExt (Ptr (sampleObj [])) [] = Inl (LibError ''empty'')"
  using wrap_validation_gate[where r = "Ptr (plainObj [1])" and x = sampleExt and opts = "[]"]
        wrap_validation_gate[where r = "Ptr (sampleObj [])" and x = sampleExt
          and err = "LibError ''empty''" and opts = "[]"]
  by (simp add: plainObj_def plainType_def sampleObj_def sampleType_def sampleExt_def)

section \<open>Encoding defaults and overrides\<close>



section \<open>Hydrating an empty list\<close>

text \<open>
  Claim C9. \<open>List.UnwrapInto\<close> on an empty list of wrappers returns no error and leaves
  the target exactly as it was, whatever the target is: it is not resized and no
  element is touched.
\<close>

theorem List_UnwrapInto_empty:
  "List_UnwrapInto x [] ptr = (None, ptr)"
  by (simp add: List_UnwrapInto_def)

section \<open>The sample collaborators, evaluated\<close>

lemma sampleExt_sel:
  "json_Marshal sampleExt = (\<lambda>v. Inr (payload v))"
  "json_Unmarshal sampleExt = (\<lambda>m v. (None, setRest v m))"
  "proto_Marshal sampleExt = (\<lambda>v. Inr (rev (payload v)))"
  "proto_Unmarshal sampleExt = (\<lambda>m v. (None, setRest v (rev m)))"
  "snappy_Encode sampleExt = (\<lambda>m. 255 # m)"
  "snappy_Decode sampleExt = sampleSnappyDecode"
  "apitools_Resolve sampleExt = (\<lambda>api typ.
         if api = ''core/v2'' \<and> typ = ''CheckConfig'' then Inr (Ptr (sampleObj []))
         else Inl (LibError ''type could not be found''))"
  "types_ApiVersion sampleExt = (\<lambda>path. ''core/v2'')"
  "MarshalText sampleExt = (\<lambda>t. if t = 0 then Inr ''0001-01-01T00:00:00Z'' else Inr ''later'')"
  "Validate sampleExt = (\<lambda>v. if payload v = [] then Some (LibError ''empty'') else None)"
  "GetMetadata sampleExt = metadataField"
  "SetMetadata sampleExt = (\<lambda>v m. withMetadata v (Some m))"
  "writeThrough sampleExt = (\<lambda>p v m. withMetadata v (Some m))"
  "SensuCreatedAtKey sampleExt = ''sensu.io/created_at''"
  "SensuUpdatedAtKey sampleExt = ''sensu.io/updated_at''"
  "SensuDeletedAtKey sampleExt = ''sensu.io/deleted_at''"
  "SensuETagKey sampleExt = ''sensu.io/etag''"
  by (simp_all add: sampleExt_def)

lemma sampleWrapper_sel:
  "TypeMeta sampleWrapper = Some \<lparr>Type = ''CheckConfig'', APIVersion = ''core/v2''\<rparr>"
  "Encoding sampleWrapper = Encoding_json"
  "Compression sampleWrapper = Compression_none"
  "Value sampleWrapper = [1, 2, 3]"
  "CreatedAt sampleWrapper = 5"
  "UpdatedAt sampleWrapper = 7"
  "DeletedAt sampleWrapper = 0"
  "ETag sampleWrapper = ''abc''"
  by (simp_all add: sampleWrapper_def)

lemma sampleObj_sel:
  "rtype (sampleObj p) = sampleType" "Metadata (sampleObj p) = None" "rest (sampleObj p) = p"
  by (simp_all add: sampleObj_def)

lemma UnwrapRaw_sample:
  "UnwrapRaw sampleExt (sampleWrapper\<lparr>DeletedAt := d\<rparr>) = Inr (Ptr (sampleObj [1, 2, 3]))"
  by (simp add: UnwrapRaw_def sampleWrapper_sel sampleExt_sel Decompress_def Decode_def
        sampleObj_def)

lemma Unwrap_sample:
  "Unwrap sampleExt (sampleWrapper\<lparr>DeletedAt := d\<rparr>) =
     Inr (Ptr ((sampleObj [1, 2, 3])\<lparr>Metadata :=
            Some (stampMeta sampleExt (sampleWrapper\<lparr>DeletedAt := d\<rparr>) new_ObjectMeta)\<rparr>))"
  by (simp add: Unwrap_def UnwrapRaw_sample sampleObj_sel sampleType_def sampleExt_sel Let_def)


section \<open>The stored documents, evaluated\<close>

lemma coreExt_sel:
  "json_Unmarshal coreExt = coreUnmarshal"
  "apitools_Resolve coreExt = coreResolve"
  "MarshalText coreExt = (\<lambda>t. if t = 0 then Inr ''0001-01-01T00:00:00Z'' else Inr ''later'')"
  "GetMetadata coreExt = (\<lambda>v. if isTessen v then Some new_ObjectMeta else metadataField v)"
  "SetMetadata coreExt = (\<lambda>v m. if isTessen v then v else withMetadata v (Some m))"
  "writeThrough coreExt = (\<lambda>p v m. if isTessen v then v else withMetadata v (Some m))"
  "SensuCreatedAtKey coreExt = ''sensu.io/created_at''"
  "SensuUpdatedAtKey coreExt = ''sensu.io/updated_at''"
  "SensuDeletedAtKey coreExt = ''sensu.io/deleted_at''"
  "SensuETagKey coreExt = ''sensu.io/etag''"
  by (simp_all add: coreExt_def sampleExt_def)

lemma stored_sel:
  "TypeMeta (stored api typ doc etag) = Some \<lparr>Type = typ, APIVersion = api\<rparr>"
  "Encoding (stored api typ doc etag) = Encoding_json"
  "Compression (stored api typ doc etag) = Compression_none"
  "Value (stored api typ doc etag) = bytesOf doc"
  "CreatedAt (stored api typ doc etag) = 0"
  "UpdatedAt (stored api typ doc etag) = 0"
  "DeletedAt (stored api typ doc etag) = 0"
  "ETag (stored api typ doc etag) = etag"
  by (simp_all add: stored_def)

lemma bytesOf_eq_iff: "bytesOf a = bytesOf b \<longleftrightarrow> a = b"
proof -
  have "inj (\<lambda>c :: char. (of_nat (of_char c) :: 8 word))"
  proof (rule injI)
    fix c d :: char
    assume "(of_nat (of_char c) :: 8 word) = of_nat (of_char d)"
    then have "unat (of_nat (of_char c) :: 8 word) = unat (of_nat (of_char d) :: 8 word)"
      by simp
    then have "(of_char c :: nat) mod 256 = of_char d mod 256"
      by (simp add: unat_of_nat)
    then show "c = d"
      by simp
  qed
  then show ?thesis
    unfolding bytesOf_def by (rule inj_map_eq_map)
qed

lemma zero_rtype:
  "rtype entityConfigZero = entityConfigType" "rtype tessenConfigZero = tessenConfigType"
  "v3Resource entityConfigType" "v3Resource tessenConfigType"
  "TypeName entityConfigType = ''EntityConfig''" "TypeName tessenConfigType = ''TessenConfig''"
  by (simp_all add: entityConfigZero_def entityConfigType_def tessenConfigZero_def
        tessenConfigType_def)

lemmas isEntity_zero = isEntity_def isTessen_def zero_rtype

lemma zero_Metadata:
  "Metadata entityConfigZero = None" "Metadata tessenConfigZero = None"
  by (simp_all add: entityConfigZero_def tessenConfigZero_def)

lemma coreUnmarshal_table:
  "coreUnmarshal (bytesOf ''{}'') v = (None, v)"
  "coreUnmarshal (bytesOf docNamed) (Ptr entityConfigZero) =
     (None, Ptr (entityConfigZero\<lparr>Metadata := Some namedMeta\<rparr>))"
  "coreUnmarshal (bytesOf docLabelled) (Ptr entityConfigZero) =
     (None, Ptr (entityConfigZero\<lparr>Metadata := Some labelledMeta\<rparr>))"
  "coreUnmarshal (bytesOf docTessen) (Ptr tessenConfigZero) = (None, Ptr tessenConfigZero)"
  by (simp_all add: coreUnmarshal_def bytesOf_eq_iff isEntity_zero docNamed_def
        docLabelled_def docTessen_def)

lemma UnwrapRaw_core:
  "UnwrapRaw coreExt (stored ''core/v3'' ''EntityConfig'' ''{}'' etag) =
     Inr (Ptr entityConfigZero)"
  "UnwrapRaw coreExt (stored ''core/v3'' ''EntityConfig'' docNamed etag) =
     Inr (Ptr (entityConfigZero\<lparr>Metadata := Some namedMeta\<rparr>))"
  "UnwrapRaw coreExt (stored ''core/v3'' ''EntityConfig'' docLabelled etag) =
     Inr (Ptr (entityConfigZero\<lparr>Metadata := Some labelledMeta\<rparr>))"
  "UnwrapRaw coreExt (stored ''core/v2'' ''TessenConfig'' docTessen etag) =
     Inr (Ptr tessenConfigZero)"
  by (simp_all add: UnwrapRaw_def stored_sel coreExt_sel coreResolve_def Decompress_def
        Decode_def coreUnmarshal_table)

lemma Unwrap_core:
  "Unwrap coreExt (stored ''core/v3'' ''EntityConfig'' ''{}'' etag) =
     Inr (Ptr (entityConfigZero\<lparr>Metadata := Some (stampMeta coreExt
            (stored ''core/v3'' ''EntityConfig'' ''{}'' etag) new_ObjectMeta)\<rparr>))"
  "Unwrap coreExt (stored ''core/v3'' ''EntityConfig'' docNamed etag) =
     Inr (Ptr (entityConfigZero\<lparr>Metadata := Some (stampMeta coreExt
            (stored ''core/v3'' ''EntityConfig'' docNamed etag) namedMeta)\<rparr>))"
  "Unwrap coreExt (stored ''core/v3'' ''EntityConfig'' docLabelled etag) =
     Inr (Ptr (entityConfigZero\<lparr>Metadata := Some (stampMeta coreExt
            (stored ''core/v3'' ''EntityConfig'' docLabelled etag) labelledMeta)\<rparr>))"
  "Unwrap coreExt (stored ''core/v2'' ''TessenConfig'' docTessen etag) =
     Inr (Ptr tessenConfigZero)"
  by (simp_all add: Unwrap_def UnwrapRaw_core isEntity_zero coreExt_sel Let_def
        zero_Metadata)

lemma UnwrapInto_core:
  "UnwrapInto coreExt (stored ''core/v3'' ''EntityConfig'' docNamed etag) (Ptr entityConfigZero) =
     (None, Ptr (entityConfigZero\<lparr>Metadata := Some (stampMetaInto coreExt
            (stored ''core/v3'' ''EntityConfig'' docNamed etag) namedMeta)\<rparr>))"
  "UnwrapInto coreExt (stored ''core/v3'' ''EntityConfig'' ''{}'' etag) (Ptr entityConfigZero) =
     (Some NilPointerDereference, Ptr entityConfigZero)"
  by (simp_all add: UnwrapInto_def stored_sel coreExt_sel Decompress_def Decode_def
        coreUnmarshal_table isEntity_zero zero_Metadata Let_def)

lemma core_keys_texts:
  "timeText coreExt 0 = ''0001-01-01T00:00:00Z''"
  by (simp add: timeText_def coreExt_sel)

section \<open>Round trip through wrap and Unwrap\<close>

lemma Decompress_Compress:
  assumes "\<And>m. snappy_Decode x (snappy_Encode x m) = Inr m"
    and "c = Compression_none \<or> c = Compression_snappy"
  shows "Decompress x c (Compress x c m) = Inr m"
  using assms by (auto simp: Decompress_def Compress_def)

lemma Decode_Encode:
  assumes "e = Encoding_json \<or> e = Encoding_protobuf"
    and "Encode x e r = Inr m"
    and "dynType z = dynType r"
    and "\<And>m. json_Marshal x r = Inr m \<Longrightarrow> json_Unmarshal x m z = (None, r)"
    and "\<And>m. proto_Marshal x r = Inr m \<Longrightarrow> proto_Unmarshal x m z = (None, r)"
  shows "Decode x e m z = (None, r)"
proof (cases "e = Encoding_json")
  case True
  with assms(2) have "json_Marshal x r = Inr m"
    by (simp add: Encode_def)
  from assms(4)[OF this] True show ?thesis
    by (simp add: Decode_def)
next
  case False
  with assms(1) have e: "e = Encoding_protobuf" by simp
  from assms(2) False e have p: "protoMessage (dynType r)" and m: "proto_Marshal x r = Inr m"
    by (auto simp: Encode_def split: if_splits)
  from assms(5)[OF m] False e p assms(3) show ?thesis
    by (simp add: Decode_def)
qed

lemma stampLabels_texts:
  assumes "distinct [SensuCreatedAtKey x, SensuUpdatedAtKey x, SensuDeletedAtKey x]"
    and "MarshalText x (CreatedAt w) = Inr createdAt"
    and "MarshalText x (UpdatedAt w) = Inr updatedAt"
    and "IsZero (DeletedAt w) \<or> MarshalText x (DeletedAt w) = Inr deletedAt"
  shows "stampLabels x w l (SensuCreatedAtKey x) = Some createdAt"
    and "stampLabels x w l (SensuUpdatedAtKey x) = Some updatedAt"
    and "stampLabels x w l (SensuDeletedAtKey x) =
           (if IsZero (DeletedAt w) then l (SensuDeletedAtKey x) else Some deletedAt)"
  using assms by (auto simp: stampLabels_def timeText_def Let_def)

lemma stampLabels_other:
  "k \<notin> storageLabelKeys x \<Longrightarrow> stampLabels x w l k = l k"
  by (auto simp: stampLabels_def storageLabelKeys_def Let_def)

lemma stampLabels_restrict:
  "stampLabels x w l |` (- storageLabelKeys x) = l |` (- storageLabelKeys x)"
  by (rule ext) (simp add: restrict_map_def stampLabels_other)

lemma metadataField_withMetadata: "metadataField (withMetadata r m) = m"
  by (cases r) simp_all

lemma Unwrap_result:
  assumes "Unwrap x w = Inr r"
  shows "\<exists>raw. UnwrapRaw x w = Inr raw \<and> v3Resource (dynType raw) \<and>
           r = (case GetMetadata x raw of
                  None \<Rightarrow>
                    writeThrough x GivenToSetMetadata (SetMetadata x raw new_ObjectMeta)
                      (stampMeta x w new_ObjectMeta)
                | Some meta \<Rightarrow> writeThrough x FromGetMetadata raw (stampMeta x w meta))"
  using assms
  by (auto simp: Unwrap_def Let_def split: sum.splits if_splits option.splits)

text \<open>
  Claim C1. Let \<open>r\<close> be a resource that \<open>wrap\<close> accepts (it has \<open>Validate\<close> and
  validates) with options of the package, so with any of the encodings and compressions
  the package supports. Suppose the collaborators do their part: the resolver returns,
  for the type identity written into the envelope, an instance \<open>z\<close> of the resource's
  type; unmarshalling into \<open>z\<close> what the JSON library marshalled of the resource gives
  the resource back, and so for the protobuf library; snappy decoding inverts snappy
  encoding; the resource is a \<open>corev3.Resource\<close> whose \<open>GetMetadata\<close> returns, and
  whose \<open>SetMetadata\<close> keeps, the pointer in its \<open>Metadata\<close> field. Then \<open>Unwrap\<close> of
  the envelope succeeds and returns the stored resource (the proxied resource, for a
  proxy) with only its metadata replaced; name, namespace and creator are as before,
  and labels and annotations are as before on every key other than the reserved
  created-at, updated-at and deleted-at labels and the reserved etag annotation. A nil
  metadata pointer and a nil map count as empty on both sides.
\<close>

theorem wrap_Unwrap_round_trip:
  assumes "wrap x r opts = Inr w"
    and "set opts \<subseteq> packageOptions"
    and "apitools_Resolve x (APIVersion (typeMetaOf x (unproxy r)))
           (Type (typeMetaOf x (unproxy r))) = Inr z"
    and "dynType z = dynType (unproxy r)"
    and "\<And>m. json_Marshal x (unproxy r) = Inr m \<Longrightarrow>
           json_Unmarshal x m z = (None, unproxy r)"
    and "\<And>m. proto_Marshal x (unproxy r) = Inr m \<Longrightarrow>
           proto_Unmarshal x m z = (None, unproxy r)"
    and "\<And>m. snappy_Decode x (snappy_Encode x m) = Inr m"
    and "v3Resource (dynType (unproxy r))"
    and "GetMetadata x (unproxy r) = metadataField (unproxy r)"
    and "\<And>m. writeThrough x FromGetMetadata (unproxy r) m = withMetadata (unproxy r) (Some m)"
    and "\<And>m. writeThrough x GivenToSetMetadata (SetMetadata x (unproxy r) new_ObjectMeta) m =
           withMetadata (unproxy r) (Some m)"
  shows "\<exists>m'. Unwrap x w = Inr (withMetadata (unproxy r) (Some m')) \<and>
           Name m' = Name (metaOrNew x (unproxy r)) \<and>
           Namespace m' = Namespace (metaOrNew x (unproxy r)) \<and>
           CreatedBy m' = CreatedBy (metaOrNew x (unproxy r)) \<and>
           nonNil (Labels m') |` (- storageLabelKeys x) =
             nonNil (Labels (metaOrNew x (unproxy r))) |` (- storageLabelKeys x) \<and>
           nonNil (Annotations m') |` (- storageAnnotationKeys x) =
             nonNil (Annotations (metaOrNew x (unproxy r))) |` (- storageAnnotationKeys x)"
proof -
  let ?r = "unproxy r"
  from assms(1) have ww: "wrapWithoutValidation x r opts = Inr w"
    by (auto simp: wrap_def split: if_splits option.splits)
  from wrapWithoutValidation_package[OF ww assms(2)] obtain message where
    enc: "Encode x (Encoding w) ?r = Inr message"
    and val: "Value w = Compress x (Compression w) message"
    and tm: "TypeMeta w = Some (typeMetaOf x ?r)"
    and e: "Encoding w = Encoding_json \<or> Encoding w = Encoding_protobuf"
    and c: "Compression w = Compression_none \<or> Compression w = Compression_snappy"
    by blast
  have dec: "Decode x (Encoding w) message z = (None, ?r)"
    by (rule Decode_Encode[OF e enc assms(4) assms(5) assms(6)])
  have raw: "UnwrapRaw x w = Inr ?r"
    by (simp add: UnwrapRaw_def tm assms(3) val Decompress_Compress[OF assms(7) c] dec)
  define m' where "m' = stampMeta x w (metaOrNew x ?r)"
  have u: "Unwrap x w = Inr (withMetadata ?r (Some m'))"
    using assms(8)
    by (simp add: Unwrap_def raw m'_def metaOrNew_def Let_def assms(10) assms(11)
          split: option.splits)
  have ann: "nonNil (Annotations m') |` (- storageAnnotationKeys x) =
             nonNil (Annotations (metaOrNew x ?r)) |` (- storageAnnotationKeys x)"
    by (rule ext)
       (simp add: m'_def stampMeta_def Let_def nonNil_def restrict_map_def
          storageAnnotationKeys_def)
  have lab: "nonNil (Labels m') |` (- storageLabelKeys x) =
             nonNil (Labels (metaOrNew x ?r)) |` (- storageLabelKeys x)"
    using stampLabels_restrict[of x w "nonNil (Labels (metaOrNew x ?r))"]
    by (simp add: m'_def stampMeta_def Let_def nonNil_def)
  show ?thesis
    using u ann lab by (intro exI[of _ m']) (simp add: m'_def stampMeta_def Let_def)
qed

theorem wrap_Unwrap_round_trip_witness:
  "wrap sampleExt (Ptr (sampleObj [1, 2, 3])) [EncodeJSON, CompressNone] =
     Inr ((newWrapper \<lparr>Type = ''CheckConfig'', APIVersion = ''core/v2''\<rparr>)
            \<lparr>Encoding := Encoding_json, Compression := Compression_none, Value := [1, 2, 3]\<rparr>) \<and>
   (\<exists>m'. Unwrap sampleExt
            ((newWrapper \<lparr>Type = ''CheckConfig'', APIVersion = ''core/v2''\<rparr>)
               \<lparr>Encoding := Encoding_json, Compression := Compression_none,
                Value := [1, 2, 3]\<rparr>) =
            Inr (withMetadata (Ptr (sampleObj [1, 2, 3])) (Some m')) \<and>
          Name m' = Name new_ObjectMeta \<and>
          nonNil (Labels m') |` (- storageLabelKeys sampleExt) = Map.empty \<and>
          nonNil (Annotations m') |` (- storageAnnotationKeys sampleExt) = Map.empty) \<and>
   wrap sampleExt (Ptr (sampleObj [1, 2, 3])) [] =
     Inr ((newWrapper \<lparr>Type = ''CheckConfig'', APIVersion = ''core/v2''\<rparr>)
            \<lparr>Encoding := Encoding_protobuf, Compression := Compression_snappy,
             Value := [255, 3, 2, 1]\<rparr>) \<and>
   (\<exists>m'. Unwrap sampleExt
            ((newWrapper \<lparr>Type = ''CheckConfig'', APIVersion = ''core/v2''\<rparr>)
               \<lparr>Encoding := Encoding_protobuf, Compression := Compression_snappy,
                Value := [255, 3, 2, 1]\<rparr>) =
            Inr (withMetadata (Ptr (sampleObj [1, 2, 3])) (Some m')))"
proof -
  let ?r = "Ptr (sampleObj [1, 2, 3])"
  let ?tm = "\<lparr>Type = ''CheckConfig'', APIVersion = ''core/v2''\<rparr>"
  have tm: "typeMetaOf sampleExt ?r = ?tm"
    by (simp add: typeMetaOf_def sampleObj_sel sampleType_def sampleExt_sel)
  have w1: "wrap sampleExt ?r [EncodeJSON, CompressNone] =
      Inr ((newWrapper ?tm)\<lparr>Encoding := Encoding_json, Compression := Compression_none,
             Value := [1, 2, 3]\<rparr>)"
    by (simp add: wrap_def wrapWithoutValidation_def tm EncodeDefault_def CompressDefault_def
          CompressSnappy_def CompressNone_def EncodeJSON_def Encode_def Compress_def
          sampleExt_sel sampleObj_sel sampleType_def Let_def)
  have w2: "wrap sampleExt ?r [] =
      Inr ((newWrapper ?tm)\<lparr>Encoding := Encoding_protobuf, Compression := Compression_snappy,
             Value := [255, 3, 2, 1]\<rparr>)"
    by (simp add: wrap_def wrapWithoutValidation_def tm EncodeDefault_def CompressDefault_def
          CompressSnappy_def Encode_def Compress_def Encoding_json_def Encoding_protobuf_def
          Compression_none_def Compression_snappy_def
          sampleExt_sel sampleObj_sel sampleType_def Let_def)
  have sub1: "set [EncodeJSON, CompressNone] \<subseteq> (packageOptions :: bytes Option set)"
    and sub2: "set [] \<subseteq> (packageOptions :: bytes Option set)"
    by (simp_all add: packageOptions_def)
  have res: "apitools_Resolve sampleExt (APIVersion (typeMetaOf sampleExt (unproxy ?r)))
      (Type (typeMetaOf sampleExt (unproxy ?r))) = Inr (Ptr (sampleObj []))"
    by (simp add: tm sampleExt_sel)
  have u: "unproxy ?r = ?r"
    by simp
  have ty: "dynType (Ptr (sampleObj [])) = dynType (unproxy ?r)"
    by (simp add: sampleObj_sel)
  have js: "json_Unmarshal sampleExt m (Ptr (sampleObj [])) = (None, unproxy ?r)"
    if "json_Marshal sampleExt (unproxy ?r) = Inr m" for m
    using that by (auto simp: sampleExt_sel sampleObj_def)
  have pb: "proto_Unmarshal sampleExt m (Ptr (sampleObj [])) = (None, unproxy ?r)"
    if "proto_Marshal sampleExt (unproxy ?r) = Inr m" for m
    using that by (auto simp: sampleExt_sel sampleObj_def)
  have sn: "snappy_Decode sampleExt (snappy_Encode sampleExt m) = Inr m" for m
    by (simp add: sampleExt_sel sampleSnappyDecode_def)
  have v3: "v3Resource (dynType (unproxy ?r))"
    by (simp add: sampleObj_def sampleType_def)
  have g: "GetMetadata sampleExt (unproxy ?r) = metadataField (unproxy ?r)"
    by (simp add: sampleExt_sel)
  have wt: "writeThrough sampleExt FromGetMetadata (unproxy ?r) m =
      withMetadata (unproxy ?r) (Some m)"
    "writeThrough sampleExt GivenToSetMetadata
       (SetMetadata sampleExt (unproxy ?r) new_ObjectMeta) m =
      withMetadata (unproxy ?r) (Some m)" for m
    by (simp_all add: sampleExt_sel)
  have m0: "metaOrNew sampleExt ?r = new_ObjectMeta"
    by (simp add: metaOrNew_def sampleObj_sel sampleExt_sel)
  have e: "nonNil (Labels new_ObjectMeta) |` A = Map.empty"
    "nonNil (Annotations new_ObjectMeta) |` A = Map.empty" for A
    by (simp_all add: nonNil_def new_ObjectMeta_def)
  from wrap_Unwrap_round_trip[OF w1 sub1 res ty js pb sn v3 g wt]
  have A: "\<exists>m'. Unwrap sampleExt
            ((newWrapper ?tm)\<lparr>Encoding := Encoding_json, Compression := Compression_none,
                Value := [1, 2, 3]\<rparr>) = Inr (withMetadata ?r (Some m')) \<and>
          Name m' = Name new_ObjectMeta \<and>
          nonNil (Labels m') |` (- storageLabelKeys sampleExt) = Map.empty \<and>
          nonNil (Annotations m') |` (- storageAnnotationKeys sampleExt) = Map.empty"
    unfolding u m0 e by blast
  from wrap_Unwrap_round_trip[OF w2 sub2 res ty js pb sn v3 g wt]
  have B: "\<exists>m'. Unwrap sampleExt
            ((newWrapper ?tm)\<lparr>Encoding := Encoding_protobuf, Compression := Compression_snappy,
                Value := [255, 3, 2, 1]\<rparr>) = Inr (withMetadata ?r (Some m'))"
    unfolding u by blast
  from w1 w2 A B show ?thesis
    by blast
qed

section \<open>Identity fields of a patch body\<close>



section \<open>UnwrapInto against Unwrap\<close>

text \<open>
  Claim C4 says that \<open>UnwrapInto\<close> behaves as \<open>Unwrap\<close> does after the type
  resolution: it allocates missing metadata and writes the same reserved keys, the etag
  annotation among them. The code does neither. Take a \<open>core/v3\<close> \<open>EntityConfig\<close>
  stored as JSON with ETag \<open>abc\<close>. When the document names the resource
  (\<open>docNamed\<close>), \<open>Unwrap\<close> returns a resource with the etag annotation, while
  \<open>UnwrapInto\<close> into a zero \<open>EntityConfig\<close> succeeds, stamps the created-at label and
  leaves no etag annotation. When the document is the empty object, so that decoding
  leaves the \<open>Metadata\<close> pointer nil, \<open>Unwrap\<close> succeeds on the resolver's instance by
  allocating the metadata, while \<open>UnwrapInto\<close> into the same zero instance
  dereferences the nil pointer.
\<close>

theorem UnwrapInto_misses_etag_and_nil_metadata:
  "resultAnnotation coreExt (Unwrap coreExt (stored ''core/v3'' ''EntityConfig'' docNamed ''abc''))
     ''sensu.io/etag'' = Some ''abc'' \<and>
   fst (UnwrapInto coreExt (stored ''core/v3'' ''EntityConfig'' docNamed ''abc'')
          (Ptr entityConfigZero)) = None \<and>
   labelOf coreExt (snd (UnwrapInto coreExt (stored ''core/v3'' ''EntityConfig'' docNamed ''abc'')
          (Ptr entityConfigZero))) ''sensu.io/created_at'' = Some ''0001-01-01T00:00:00Z'' \<and>
   annotationOf coreExt (snd (UnwrapInto coreExt
          (stored ''core/v3'' ''EntityConfig'' docNamed ''abc'') (Ptr entityConfigZero)))
     ''sensu.io/etag'' = None \<and>
   apitools_Resolve coreExt ''core/v3'' ''EntityConfig'' = Inr (Ptr entityConfigZero) \<and>
   \<not> isl (Unwrap coreExt (stored ''core/v3'' ''EntityConfig'' ''{}'' ''abc'')) \<and>
   fst (UnwrapInto coreExt (stored ''core/v3'' ''EntityConfig'' ''{}'' ''abc'')
          (Ptr entityConfigZero)) = Some NilPointerDereference"
  by (simp add: Unwrap_core UnwrapInto_core resultAnnotation_def annotationOf_def labelOf_def
        metaOrNew_def coreExt_sel isEntity_zero stampMeta_def stampMetaInto_def stampLabels_def
        stored_sel core_keys_texts IsZero_def nonNil_def namedMeta_def coreResolve_def Let_def
        zero_Metadata)

section \<open>Hydrating into a slice\<close>








section \<open>What Unwrap stamps on the metadata\<close>

text \<open>
  Claim C6, as the code has it. Let \<open>Unwrap\<close> return a resource whose metadata methods
  give access to the object the package wrote through: what was written through the
  pointer \<open>GetMetadata\<close> returned, or through the one handed to \<open>SetMetadata\<close>, is
  what \<open>GetMetadata\<close> then returns. Let the timestamps have a textual form. Then the
  resource has metadata with non-nil labels and annotations; its created-at and
  updated-at labels are the texts of the envelope's timestamps and its etag annotation
  is the envelope's ETag. When \<open>DeletedAt\<close> is not the zero time the deleted-at label is
  its text; when it is the zero time \<open>Unwrap\<close> does not write that key, which stays as
  the decoded resource had it. The three label keys are taken to be distinct.
\<close>

theorem Unwrap_stamps_metadata:
  assumes "Unwrap x w = Inr r"
    and "UnwrapRaw x w = Inr raw"
    and "\<And>m. GetMetadata x (writeThrough x FromGetMetadata raw m) = Some m"
    and "\<And>m. GetMetadata x
             (writeThrough x GivenToSetMetadata (SetMetadata x raw new_ObjectMeta) m) = Some m"
    and "distinct [SensuCreatedAtKey x, SensuUpdatedAtKey x, SensuDeletedAtKey x]"
    and "MarshalText x (CreatedAt w) = Inr createdAt"
    and "MarshalText x (UpdatedAt w) = Inr updatedAt"
    and "IsZero (DeletedAt w) \<or> MarshalText x (DeletedAt w) = Inr deletedAt"
  shows "\<exists>meta labels annotations.
           GetMetadata x r = Some meta \<and>
           Labels meta = Some labels \<and> Annotations meta = Some annotations \<and>
           labels (SensuCreatedAtKey x) = Some createdAt \<and>
           labels (SensuUpdatedAtKey x) = Some updatedAt \<and>
           annotations (SensuETagKey x) = Some (ETag w) \<and>
           labels (SensuDeletedAtKey x) =
             (if IsZero (DeletedAt w) then labelOf x raw (SensuDeletedAtKey x)
              else Some deletedAt)"
proof -
  define m' where "m' = stampMeta x w (metaOrNew x raw)"
  from Unwrap_result[OF assms(1)] assms(2)
  have r: "r = (case GetMetadata x raw of
                  None \<Rightarrow>
                    writeThrough x GivenToSetMetadata (SetMetadata x raw new_ObjectMeta)
                      (stampMeta x w new_ObjectMeta)
                | Some meta \<Rightarrow> writeThrough x FromGetMetadata raw (stampMeta x w meta))"
    by simp
  have g: "GetMetadata x r = Some m'"
    unfolding r m'_def metaOrNew_def
    by (simp add: assms(3) assms(4) split: option.splits)
  have l: "Labels m' = Some (stampLabels x w (nonNil (Labels (metaOrNew x raw))))"
    and a: "Annotations m' =
      Some ((nonNil (Annotations (metaOrNew x raw)))(SensuETagKey x \<mapsto> ETag w))"
    by (simp_all add: m'_def stampMeta_def Let_def)
  show ?thesis
    using g l a
      stampLabels_texts[OF assms(5) assms(6) assms(7) assms(8),
        of "nonNil (Labels (metaOrNew x raw))"]
    by (simp add: labelOf_def)
qed

theorem Unwrap_stamps_metadata_witness:
  "resultLabel coreExt (Unwrap coreExt (stored ''core/v3'' ''EntityConfig'' docNamed ''abc''))
     ''sensu.io/created_at'' = Some ''0001-01-01T00:00:00Z'' \<and>
   resultLabel coreExt (Unwrap coreExt (stored ''core/v3'' ''EntityConfig'' docNamed ''abc''))
     ''sensu.io/updated_at'' = Some ''0001-01-01T00:00:00Z'' \<and>
   resultAnnotation coreExt (Unwrap coreExt (stored ''core/v3'' ''EntityConfig'' docNamed ''abc''))
     ''sensu.io/etag'' = Some ''abc'' \<and>
   resultLabel coreExt (Unwrap coreExt (stored ''core/v3'' ''EntityConfig'' docNamed ''abc''))
     ''sensu.io/deleted_at'' = None \<and>
   resultLabel sampleExt (Unwrap sampleExt (sampleWrapper\<lparr>DeletedAt := 9\<rparr>))
     ''sensu.io/deleted_at'' = Some ''later''"
proof -
  let ?w = "stored ''core/v3'' ''EntityConfig'' docNamed ''abc''"
  let ?raw = "Ptr (entityConfigZero\<lparr>Metadata := Some namedMeta\<rparr>)"
  let ?v = "sampleWrapper\<lparr>DeletedAt := 9\<rparr>"
  have rb: "GetMetadata coreExt (writeThrough coreExt FromGetMetadata ?raw m) = Some m"
    "GetMetadata coreExt
       (writeThrough coreExt GivenToSetMetadata (SetMetadata coreExt ?raw new_ObjectMeta) m) =
     Some m" for m
    by (simp_all add: coreExt_sel isEntity_zero)
  have d: "distinct [SensuCreatedAtKey coreExt, SensuUpdatedAtKey coreExt,
      SensuDeletedAtKey coreExt]"
    by (simp add: coreExt_sel)
  have t: "MarshalText coreExt (CreatedAt ?w) = Inr ''0001-01-01T00:00:00Z''"
    "MarshalText coreExt (UpdatedAt ?w) = Inr ''0001-01-01T00:00:00Z''"
    by (simp_all add: coreExt_sel stored_sel)
  have z: "IsZero (DeletedAt ?w) \<or> MarshalText coreExt (DeletedAt ?w) = Inr ''''"
    by (simp add: IsZero_def stored_sel)
  have none: "labelOf coreExt ?raw ''sensu.io/deleted_at'' = None"
    by (simp add: labelOf_def metaOrNew_def coreExt_sel isEntity_zero namedMeta_def nonNil_def)
  have A: "resultLabel coreExt (Unwrap coreExt ?w) ''sensu.io/created_at'' =
        Some ''0001-01-01T00:00:00Z'' \<and>
      resultLabel coreExt (Unwrap coreExt ?w) ''sensu.io/updated_at'' =
        Some ''0001-01-01T00:00:00Z'' \<and>
      resultAnnotation coreExt (Unwrap coreExt ?w) ''sensu.io/etag'' = Some ''abc'' \<and>
      resultLabel coreExt (Unwrap coreExt ?w) ''sensu.io/deleted_at'' = None"
    using Unwrap_stamps_metadata[OF Unwrap_core(2) UnwrapRaw_core(2) rb d t z] none z
    by (auto simp: Unwrap_core(2) resultLabel_def resultAnnotation_def labelOf_def
          annotationOf_def metaOrNew_def nonNil_def coreExt_sel stored_sel)
  have rb': "GetMetadata sampleExt (writeThrough sampleExt FromGetMetadata
        (Ptr (sampleObj [1, 2, 3])) m) = Some m"
    "GetMetadata sampleExt (writeThrough sampleExt GivenToSetMetadata
        (SetMetadata sampleExt (Ptr (sampleObj [1, 2, 3])) new_ObjectMeta) m) = Some m" for m
    by (simp_all add: sampleExt_sel)
  have d': "distinct [SensuCreatedAtKey sampleExt, SensuUpdatedAtKey sampleExt,
      SensuDeletedAtKey sampleExt]"
    by (simp add: sampleExt_sel)
  have t': "MarshalText sampleExt (CreatedAt ?v) = Inr ''later''"
    "MarshalText sampleExt (UpdatedAt ?v) = Inr ''later''"
    by (simp_all add: sampleExt_sel sampleWrapper_sel)
  have z': "IsZero (DeletedAt ?v) \<or> MarshalText sampleExt (DeletedAt ?v) = Inr ''later''"
    by (simp add: sampleExt_sel)
  have nz: "\<not> IsZero (DeletedAt ?v)"
    by (simp add: IsZero_def)
  have B: "resultLabel sampleExt (Unwrap sampleExt ?v) ''sensu.io/deleted_at'' = Some ''later''"
    using Unwrap_stamps_metadata[OF Unwrap_sample[of 9] UnwrapRaw_sample[of 9] rb' d' t' z'] nz
    by (auto simp: Unwrap_sample resultLabel_def labelOf_def metaOrNew_def nonNil_def
          sampleExt_sel)
  from A B show ?thesis by simp
qed

text \<open>
  Claim C6 as stated fails, in two ways. An envelope that is not deleted, whose stored
  \<open>EntityConfig\<close> has a label under the deleted-at key, unwraps to a resource that
  still has that label. And a \<open>TessenConfig\<close>, whose \<open>GetMetadata\<close> returns a fresh
  object, comes back from \<open>Unwrap\<close> with no created-at label and no etag annotation:
  the writes went to the copy.
\<close>

theorem Unwrap_keeps_stored_label_and_copied_metadata:
  "IsZero (DeletedAt (stored ''core/v3'' ''EntityConfig'' docLabelled ''abc'')) \<and>
   resultLabel coreExt (Unwrap coreExt (stored ''core/v3'' ''EntityConfig'' docLabelled ''abc''))
     ''sensu.io/deleted_at'' = Some ''2020-01-01T00:00:00Z'' \<and>
   \<not> isl (Unwrap coreExt (stored ''core/v2'' ''TessenConfig'' docTessen ''abc'')) \<and>
   resultLabel coreExt (Unwrap coreExt (stored ''core/v2'' ''TessenConfig'' docTessen ''abc''))
     ''sensu.io/created_at'' = None \<and>
   resultAnnotation coreExt (Unwrap coreExt (stored ''core/v2'' ''TessenConfig'' docTessen ''abc''))
     ''sensu.io/etag'' = None"
  by (simp add: Unwrap_core resultLabel_def resultAnnotation_def annotationOf_def labelOf_def
        metaOrNew_def coreExt_sel isEntity_zero stampMeta_def stampLabels_def
        stored_sel core_keys_texts IsZero_def nonNil_def labelledMeta_def namedMeta_def
        new_ObjectMeta_def Let_def zero_Metadata)

section \<open>Selecting the patcher\<close>

text \<open>
  Claim C8. The handler switches on what \<open>Header.Get\<close> returns for Content-Type, which
  is the empty string when the header is absent. The merge-patch content type and the
  absent header select the merge patcher. The JSON-patch content type is rejected as
  \<open>InvalidArgument\<close>, not supported yet. Every other value is rejected as
  \<open>InvalidArgument\<close>. The handler returns the rejection as it is.
\<close>

theorem selectPatcher_by_content_type:
  "(contentType = mergePatchContentType \<or> contentType = '''' \<longrightarrow>
      selectPatcher body contentType = Inr (Merge body)) \<and>
   (h ''Content-Type'' = [] \<longrightarrow>
      selectPatcher body (Header_Get h ''Content-Type'') = Inr (Merge body)) \<and>
   selectPatcher body jsonPatchContentType =
     Inl (ActionsError InvalidArgument JSONPatchNotSupported) \<and>
   (contentType \<noteq> mergePatchContentType \<and> contentType \<noteq> '''' \<and>
    contentType \<noteq> jsonPatchContentType \<longrightarrow>
      selectPatcher body contentType =
        Inl (ActionsError InvalidArgument (InvalidContentType contentType))) \<and>
   (Body r = Inr body \<longrightarrow>
    selectPatcher body (Header_Get (Header r) ''Content-Type'') = Inl err \<longrightarrow>
      (PatchResource env r :: 'p HandlerResponse \<times> error option) =
        (\<lparr>Resource = None\<rparr>, Some err))"
  by (simp add: selectPatcher_def Header_Get_def NewError_def PatchResource_def
        mergePatchContentType_def jsonPatchContentType_def)

theorem selectPatcher_by_content_type_witness:
  "selectPatcher [1] mergePatchContentType = Inr (Merge [1]) \<and>
   selectPatcher [1] (Header_Get (Header (sampleRequest [1])) ''Content-Type'') = Inr (Merge [1]) \<and>
   selectPatcher [1] ''text/plain'' =
     Inl (ActionsError InvalidArgument (InvalidContentType ''text/plain'')) \<and>
   (PatchResource sampleHenv ((sampleRequest [1])\<lparr>Header := contentTypeHeader ''text/plain''\<rparr>)
      :: bytes HandlerResponse \<times> error option) =
     (\<lparr>Resource = None\<rparr>,
      Some (ActionsError InvalidArgument (InvalidContentType ''text/plain'')))"
  using selectPatcher_by_content_type[where contentType = mergePatchContentType
          and body = "[1]" and h = "Header (sampleRequest [1])" and r = "sampleRequest [1]"
          and env = sampleHenv and err = JSONPatchNotSupported and ?'p = bytes]
        selectPatcher_by_content_type[where contentType = "''text/plain''" and body = "[1]"
          and r = "(sampleRequest [1])\<lparr>Header := contentTypeHeader ''text/plain''\<rparr>"
          and env = sampleHenv and h = "Header (sampleRequest [1])"
          and err = "ActionsError InvalidArgument (InvalidContentType ''text/plain'')"
          and ?'p = bytes]
  by (simp add: sampleRequest_def contentTypeHeader_def Header_Get_def
        mergePatchContentType_def jsonPatchContentType_def)

end
